theory Spec2Isabelle
  imports Complex_Main
begin

section \<open>Values, errors and physical constants\<close>

text \<open>
  The junction model of \<^verbatim>\<open>pvcircuit/junction.py\<close> computes with \<^verbatim>\<open>numpy.float64\<close>.
  A float is modelled by the real number it stands for. Rounding, overflow and
  underflow, and the values \<^verbatim>\<open>inf\<close> and \<^verbatim>\<open>nan\<close> that float arithmetic may produce (from an
  overflow, from a division by zero, from a power of a negative base) are not
  represented: a formula of the model stands for the same formula of the code, and
  their values agree, up to rounding, where the code stays within the finite floats.

  What the code does with the \<^emph>\<open>sentinel\<close> \<^verbatim>\<open>np.nan\<close>, which it returns on purpose, and with
  Python exceptions is modelled explicitly: a result that may be the sentinel has type
  \<open>'a or_nan\<close>, a call that may raise has type \<open>error + 'a\<close>.
\<close>

datatype error = TypeError | KeyError string | ValueError | RuntimeError

datatype 'a or_nan = Val 'a | NaN

text \<open>
  \<^verbatim>\<open>scipy.constants\<close>: Boltzmann constant, elementary charge, Planck constant, speed of
  light (the exact values of the 2019 SI) and the zero of the Celsius scale.
\<close>

definition con_k :: real where "con_k = 1380649 / 10 ^ 29"
definition con_e :: real where "con_e = 1602176634 / 10 ^ 28"
definition con_h :: real where "con_h = 662607015 / 10 ^ 42"
definition con_c :: real where "con_c = 299792458"
definition zero_Celsius :: real where "zero_Celsius = 27315 / 100"

definition k_q :: real where
  "k_q = con_k / con_e"

definition DB_PREFIX :: real where
  "DB_PREFIX = 2 * pi * con_e * (con_k / con_h) ^ 3 / con_c ^ 2 / 10 ^ 4"

definition VLIM_REVERSE :: real where "VLIM_REVERSE = 10"
definition VLIM_FORWARD :: real where "VLIM_FORWARD = 3"
definition VTOL :: real where "VTOL = 1 / 10 ^ 4"
definition EPSREL :: real where "EPSREL = 1 / 10 ^ 15"
definition MAXITER :: nat where "MAXITER = 1000"

definition TK :: "real \<Rightarrow> real" where
  "TK tc = tc + zero_Celsius"

text \<open>
  The power operator \<^verbatim>\<open>**\<close> on floats is C's \<^verbatim>\<open>pow\<close>: for an exponent that is a whole
  number it is the algebraic power, whatever the sign of the base; for any other
  exponent and a positive base it is \<open>exp (y * ln x)\<close>. (For a negative base and a
  fractional exponent \<^verbatim>\<open>pow\<close> gives \<^verbatim>\<open>nan\<close>, for a zero base and a negative exponent
  \<^verbatim>\<open>inf\<close>, which the model does not represent.)
\<close>

definition np_power :: "real \<Rightarrow> real \<Rightarrow> real" where
  "np_power x y = (if y = of_int \<lfloor>y\<rfloor> then x powi \<lfloor>y\<rfloor> else x powr y)"

text \<open>
  \<^verbatim>\<open>math.isfinite\<close> tells \<^verbatim>\<open>inf\<close> and \<^verbatim>\<open>nan\<close> from the other floats. Every value of the
  model is a real number, hence finite.
\<close>

definition isfinite :: "real \<Rightarrow> bool" where
  "isfinite x = True"

text \<open>
  \<^verbatim>\<open>np.exp\<close> on a \<^verbatim>\<open>float64\<close>: under numpy's default error state an overflow is reported
  as a \<^verbatim>\<open>RuntimeWarning\<close> and the result is \<^verbatim>\<open>inf\<close>; no exception is raised, and
  \<^verbatim>\<open>junction.py\<close> never changes the error state. The call is given the type of a call
  that may raise so that the \<^verbatim>\<open>try\<close>/\<^verbatim>\<open>except\<close> around it in \<^verbatim>\<open>Jmultidiodes\<close> has both
  of its branches in the model.
\<close>

definition np_exp :: "real \<Rightarrow> error + real" where
  "np_exp x = Inr (exp x)"

text \<open>The largest argument at which the exponential is still a finite \<^verbatim>\<open>float64\<close>
  lies below \<open>709.79\<close>.\<close>

definition EXP_OVERFLOW :: real where
  "EXP_OVERFLOW = 70979 / 100"

section \<open>The junction\<close>

text \<open>
  \<^verbatim>\<open>RBB_dict\<close> is a dictionary with the key \<^verbatim>\<open>'method'\<close> (a string or \<^verbatim>\<open>None\<close>; the
  field \<open>rbb_method\<close>) and the parameters of the method, floats under string keys (the
  map \<open>params\<close>). Reading a parameter that is missing raises \<^verbatim>\<open>KeyError\<close>.
\<close>

record rbb_dict =
  rbb_method :: "string option"
  params :: "string \<rightharpoonup> real"

record junction =
  Eg :: real
  TC :: real
  Jext :: real
  Gsh :: real
  Rser :: real
  lightarea :: real
  totalarea :: real
  pn :: int
  beta :: real
  gamma :: real
  JLC :: real
  n :: "real list"
  J0ratio :: "real list"
  RBB_dict :: rbb_dict

definition J0scale :: real where
  "J0scale = 1000"


text \<open>\<^verbatim>\<open>Junction()\<close> with the default arguments of \<^verbatim>\<open>__init__\<close>.\<close>

definition Junction_default :: junction where
  "Junction_default =
     \<lparr>Eg = 11 / 10, TC = 25, Jext = 4 / 100, Gsh = 0, Rser = 0,
      lightarea = 1, totalarea = 1, pn = - 1, beta = 15, gamma = 0, JLC = 0,
      n = [1, 2], J0ratio = [10, 10],
      RBB_dict = \<lparr>rbb_method = None, params = Map.empty\<rparr>\<rparr>"

subsection \<open>Derived quantities\<close>

definition Jphoto :: "junction \<Rightarrow> real" where
  "Jphoto j = Jext j * lightarea j / totalarea j + JLC j"

definition junction_TK :: "junction \<Rightarrow> real" where
  "junction_TK j = TK (TC j)"

definition Vth :: "junction \<Rightarrow> real" where
  "Vth j = k_q * junction_TK j"

definition Jdb :: "junction \<Rightarrow> real" where
  "Jdb j =
     (let EgkT = Eg j / Vth j
      in DB_PREFIX * np_power (junction_TK j) 3 * (EgkT * EgkT + 2 * EgkT + 2) * exp (- EgkT))"

text \<open>
  \<^verbatim>\<open>J0\<close>: the fields \<^verbatim>\<open>n\<close> and \<^verbatim>\<open>J0ratio\<close> are arrays in every junction that \<^verbatim>\<open>__init__\<close>
  and \<^verbatim>\<open>set\<close> build, so the test of their types succeeds; the arithmetic on two arrays
  of one size is elementwise. The result is an array or the scalar \<^verbatim>\<open>np.nan\<close>.
\<close>

definition J0 :: "junction \<Rightarrow> real list or_nan" where
  "J0 j =
     (if length (n j) = length (J0ratio j) then
        Val (map2 (\<lambda>ni r. np_power (Jdb j * J0scale) (1 / ni) * r / J0scale) (n j) (J0ratio j))
      else NaN)"


definition Jem :: "junction \<Rightarrow> real \<Rightarrow> real" where
  "Jem j Vmid =
     (if Vmid > 0 then Jdb j * (exp (Vmid / Vth j) - 1) + gamma j * Jphoto j
      else 0)"

subsection \<open>Is the junction a diode\<close>

text \<open>The loop of \<^verbatim>\<open>notdiode\<close> iterates over \<^verbatim>\<open>self.J0\<close>; iterating over the float
  \<^verbatim>\<open>np.nan\<close> raises \<^verbatim>\<open>TypeError\<close>.\<close>

definition notdiode :: "junction \<Rightarrow> error + bool" where
  "notdiode j =
     (if pn j = 0 then Inr True
      else (case J0 j of
              NaN \<Rightarrow> Inl TypeError
            | Val js \<Rightarrow>
                Inr (foldl (\<lambda>jsum saturation_current. jsum + saturation_current) 0 js = 0)))"

subsection \<open>Recombination, shunt and breakdown currents\<close>

text \<open>The body of the \<^verbatim>\<open>try\<close> in \<^verbatim>\<open>Jmultidiodes\<close>: the current of one diode.\<close>

definition diode_term :: "junction \<Rightarrow> real \<Rightarrow> real \<Rightarrow> real \<Rightarrow> error + real" where
  "diode_term j Vdiode ideality_factor saturation_current =
     (case np_exp (Vdiode / Vth j / ideality_factor) of
        Inl e \<Rightarrow> Inl e
      | Inr ex \<Rightarrow> Inr (saturation_current * (ex - 1)))"

definition Jmultidiodes_step :: "junction \<Rightarrow> real \<Rightarrow> real \<Rightarrow> real \<times> real \<Rightarrow> real" where
  "Jmultidiodes_step j Vdiode Jrec p =
     (case p of (ideality_factor, saturation_current) \<Rightarrow>
        if ideality_factor > 0 \<and> isfinite saturation_current then
          (case diode_term j Vdiode ideality_factor saturation_current of
             Inl e \<Rightarrow> Jrec
           | Inr t \<Rightarrow> Jrec + t)
        else Jrec)"

definition Jmultidiodes :: "junction \<Rightarrow> real \<Rightarrow> error + real" where
  "Jmultidiodes j Vdiode =
     (case J0 j of
        NaN \<Rightarrow> Inl TypeError
      | Val js \<Rightarrow> Inr (foldl (Jmultidiodes_step j Vdiode) 0 (zip (n j) js)))"

definition lookup :: "rbb_dict \<Rightarrow> string \<Rightarrow> error + real" where
  "lookup d key = (case params d key of None \<Rightarrow> Inl (KeyError key) | Some v \<Rightarrow> Inr v)"

definition JshuntRBB :: "junction \<Rightarrow> real \<Rightarrow> error + real" where
  "JshuntRBB j Vdiode =
     (let d = RBB_dict j in
      if rbb_method d = Some ''JFG'' then
        (case lookup d ''Vrb'' of Inl e \<Rightarrow> Inl e | Inr Vrb \<Rightarrow>
        (case lookup d ''J0rb'' of Inl e \<Rightarrow> Inl e | Inr J0rb \<Rightarrow>
        (case lookup d ''mrb'' of Inl e \<Rightarrow> Inl e | Inr mrb \<Rightarrow>
           Inr (Vdiode * Gsh j +
                (if Vdiode \<le> Vrb \<and> mrb \<noteq> 0 then
                   - J0rb * np_power (Jdb j * 1000) (1 / mrb) / 1000
                     * (exp (- Vdiode / Vth j / mrb) - 1)
                 else 0)))))
      else if rbb_method d = Some ''bishop'' then
        (case lookup d ''Vrb'' of Inl e \<Rightarrow> Inl e | Inr Vrb \<Rightarrow>
        (case lookup d ''avalanche'' of Inl e \<Rightarrow> Inl e | Inr a \<Rightarrow>
        (case lookup d ''mrb'' of Inl e \<Rightarrow> Inl e | Inr mrb \<Rightarrow>
           Inr (Vdiode * Gsh j +
                (if Vdiode \<le> 0 \<and> Vrb \<noteq> 0 then
                   Vdiode * Gsh j * a * np_power (1 - Vdiode / Vrb) (- mrb)
                 else 0)))))
      else Inr (Vdiode * Gsh j + 0))"

subsection \<open>The circuit equations and their solvers\<close>

definition Jparallel :: "junction \<Rightarrow> real \<Rightarrow> real \<Rightarrow> error + real" where
  "Jparallel j Vdiode Jtot =
     (case notdiode j of
        Inl e \<Rightarrow> Inl e
      | Inr True \<Rightarrow> Inr Jtot
      | Inr False \<Rightarrow>
          (case Jmultidiodes j Vdiode of Inl e \<Rightarrow> Inl e | Inr JLED \<Rightarrow>
          (case JshuntRBB j Vdiode of Inl e \<Rightarrow> Inl e | Inr JRBB \<Rightarrow>
             Inr (Jtot - JLED - JRBB))))"

text \<open>
  \<^verbatim>\<open>scipy.optimize.brentq\<close> is not part of the repository. The solvers take it as
  an argument: a function of the residual, the two ends of the bracket, \<^verbatim>\<open>xtol\<close>,
  \<^verbatim>\<open>rtol\<close> and \<^verbatim>\<open>maxiter\<close> that returns a root or raises (\<^verbatim>\<open>ValueError\<close> when the residual
  has one sign at both ends, \<^verbatim>\<open>RuntimeError\<close> when the iteration does not converge, or
  whatever the residual raises).
\<close>

type_synonym root_finder =
  "(real \<Rightarrow> error + real) \<Rightarrow> real \<Rightarrow> real \<Rightarrow> real \<Rightarrow> real \<Rightarrow> nat \<Rightarrow> error + real"

definition Vdiode :: "root_finder \<Rightarrow> junction \<Rightarrow> real \<Rightarrow> error + real or_nan" where
  "Vdiode brentq j Jdiode =
     (case notdiode j of
        Inl e \<Rightarrow> Inl e
      | Inr True \<Rightarrow> Inr (Val 0)
      | Inr False \<Rightarrow>
          (let Jtot = Jphoto j + Jdiode in
           (case brentq (\<lambda>v. Jparallel j v Jtot)
                   (- VLIM_REVERSE) VLIM_FORWARD VTOL EPSREL MAXITER of
              Inl e \<Rightarrow> Inr NaN
            | Inr v \<Rightarrow> Inr (Val v))))"

definition dV :: "junction \<Rightarrow> real \<Rightarrow> real \<Rightarrow> error + real" where
  "dV j Vmid Vtot =
     (case Jparallel j Vmid (Jphoto j) of
        Inl e \<Rightarrow> Inl e
      | Inr J \<Rightarrow> Inr (Vtot - Vmid + J * Rser j))"

definition Vmid :: "root_finder \<Rightarrow> junction \<Rightarrow> real \<Rightarrow> error + real or_nan" where
  "Vmid brentq j Vtot =
     (case notdiode j of
        Inl e \<Rightarrow> Inl e
      | Inr True \<Rightarrow> Inr (Val 0)
      | Inr False \<Rightarrow>
          (case brentq (\<lambda>v. dV j v Vtot) (- VLIM_REVERSE) VLIM_FORWARD VTOL EPSREL MAXITER of
             Inl e \<Rightarrow> Inr NaN
           | Inr v \<Rightarrow> Inr (Val v)))"

subsection \<open>Auxiliary definitions for the proofs\<close>

text \<open>The rational factor of \<open>DB_PREFIX\<close>, which is \<open>pi\<close> times it.\<close>

definition DB_RATIONAL :: real where
  "DB_RATIONAL = 2 * con_e * (con_k / con_h) ^ 3 / con_c ^ 2 / 10 ^ 4"

text \<open>What one diode adds to \<^verbatim>\<open>Jrec\<close> in the loop of \<^verbatim>\<open>Jmultidiodes\<close>.\<close>

definition diode_current :: "junction \<Rightarrow> real \<Rightarrow> real \<times> real \<Rightarrow> real" where
  "diode_current j V p =
     (case p of (ni, s) \<Rightarrow>
        if ni > 0 \<and> isfinite s then s * (exp (V / Vth j / ni) - 1) else 0)"

text \<open>Two root finders for the examples: one that always fails as \<^verbatim>\<open>brentq\<close> does on a
  bracket without a change of sign, and one that returns the upper end of the bracket.\<close>

definition no_sign_change :: root_finder where
  "no_sign_change f a b xtol rtol maxiter = Inl ValueError"

definition upper_end :: root_finder where
  "upper_end f a b xtol rtol maxiter = Inr b"



section \<open>Properties of the derived quantities\<close>

subsection \<open>The constants\<close>

lemma arctan_fifth_bounds:
  "(\<Sum>i<4. (- 1) ^ i * (1 / real (i * 2 + 1) * (1 / 5) ^ (i * 2 + 1))) \<le> arctan (1 / 5)"
  "arctan (1 / 5) \<le> (\<Sum>i<5. (- 1) ^ i * (1 / real (i * 2 + 1) * (1 / 5) ^ (i * 2 + 1)))"
proof -
  let ?a = "\<lambda>i. 1 / real (i * 2 + 1) * (1 / 5 :: real) ^ (i * 2 + 1)"
  have small: "\<bar>1 / 5 :: real\<bar> \<le> 1" by simp
  have "0 < ?a 0" by simp
  with summable_Leibniz(2) [OF zeroseq_arctan_series [OF small] monoseq_arctan_series [OF small]]
  have "(\<Sum>i. (- 1) ^ i * ?a i)
      \<in> {(\<Sum>i<2 * 2. (- 1) ^ i * ?a i) .. (\<Sum>i<2 * 2 + 1. (- 1) ^ i * ?a i)}"
    by blast
  then show "(\<Sum>i<4. (- 1) ^ i * ?a i) \<le> arctan (1 / 5)"
    and "arctan (1 / 5) \<le> (\<Sum>i<5. (- 1) ^ i * ?a i)"
    by (simp_all add: arctan_series [OF small])
qed

lemma arctan_239_bounds:
  "(\<Sum>i<2. (- 1) ^ i * (1 / real (i * 2 + 1) * (1 / 239) ^ (i * 2 + 1))) \<le> arctan (1 / 239)"
  "arctan (1 / 239) \<le> (\<Sum>i<3. (- 1) ^ i * (1 / real (i * 2 + 1) * (1 / 239) ^ (i * 2 + 1)))"
proof -
  let ?a = "\<lambda>i. 1 / real (i * 2 + 1) * (1 / 239 :: real) ^ (i * 2 + 1)"
  have small: "\<bar>1 / 239 :: real\<bar> \<le> 1" by simp
  have "0 < ?a 0" by simp
  with summable_Leibniz(2) [OF zeroseq_arctan_series [OF small] monoseq_arctan_series [OF small]]
  have "(\<Sum>i. (- 1) ^ i * ?a i)
      \<in> {(\<Sum>i<2 * 1. (- 1) ^ i * ?a i) .. (\<Sum>i<2 * 1 + 1. (- 1) ^ i * ?a i)}"
    by blast
  then show "(\<Sum>i<2. (- 1) ^ i * ?a i) \<le> arctan (1 / 239)"
    and "arctan (1 / 239) \<le> (\<Sum>i<3. (- 1) ^ i * ?a i)"
    by (simp_all add: arctan_series [OF small])
qed

lemma pi_bounds: "314159 / 100000 < pi" "pi < 314160 / 100000"
proof -
  have m: "pi = 16 * arctan (1 / 5) - 4 * arctan (1 / 239)"
    using machin by simp
  show "314159 / 100000 < pi"
    unfolding m using arctan_fifth_bounds(1) arctan_239_bounds(2)
    by (simp add: eval_nat_numeral)
  show "pi < 314160 / 100000"
    unfolding m using arctan_fifth_bounds(2) arctan_239_bounds(1)
    by (simp add: eval_nat_numeral)
qed

lemma DB_PREFIX_pi: "DB_PREFIX = pi * DB_RATIONAL"
  by (simp add: DB_PREFIX_def DB_RATIONAL_def)

lemma DB_RATIONAL_bounds:
  "101325 / 10 ^ 13 < (314159 / 100000) * DB_RATIONAL"
  "(314160 / 100000) * DB_RATIONAL < 101335 / 10 ^ 13"
  "0 < DB_RATIONAL"
  by (simp_all add: DB_RATIONAL_def con_e_def con_k_def con_h_def con_c_def power_divide
      power3_eq_cube)

lemma DB_PREFIX_approx: "\<bar>DB_PREFIX - 10133 / 10 ^ 12\<bar> < 5 / 10 ^ 13"
proof -
  have "(314159 / 100000) * DB_RATIONAL < pi * DB_RATIONAL"
    using pi_bounds(1) DB_RATIONAL_bounds(3) by (simp only: mult_strict_right_mono)
  with DB_RATIONAL_bounds(1) have lo: "101325 / 10 ^ 13 < DB_PREFIX"
    unfolding DB_PREFIX_pi by (rule less_trans)
  have "pi * DB_RATIONAL < (314160 / 100000) * DB_RATIONAL"
    using pi_bounds(2) DB_RATIONAL_bounds(3) by (simp only: mult_strict_right_mono)
  from this DB_RATIONAL_bounds(2) have hi: "DB_PREFIX < 101335 / 10 ^ 13"
    unfolding DB_PREFIX_pi by (rule less_trans)
  from lo hi show ?thesis
    unfolding abs_less_iff by simp
qed

lemma DB_PREFIX_pos: "0 < DB_PREFIX"
  by (simp add: DB_PREFIX_def con_e_def con_k_def con_h_def con_c_def)

lemma np_power_3: "np_power x 3 = x ^ 3"
  by (simp add: np_power_def)

lemma np_power_pos: "0 < x \<Longrightarrow> 0 < np_power x y"
  by (simp add: np_power_def)

subsection \<open>The detailed-balance current\<close>

lemma quadratic_pos: "0 < x * x + 2 * x + 2" for x :: real
proof -
  have "x * x + 2 * x + 2 = (x + 1)\<^sup>2 + 1"
    by (simp add: power2_eq_square algebra_simps)
  also have "\<dots> > 0"
    by (simp add: add_nonneg_pos)
  finally show ?thesis .
qed

lemma Jdb_pos: "0 < junction_TK j \<Longrightarrow> 0 < Jdb j"
  unfolding Jdb_def Let_def np_power_3
  by (intro mult_pos_pos DB_PREFIX_pos quadratic_pos exp_gt_zero zero_less_power)

lemma junction_TK_default: "junction_TK Junction_default = 29815 / 100"
  by (simp add: junction_TK_def TK_def zero_Celsius_def Junction_default_def)

lemma Vth_default: "Vth Junction_default = k_q * (29815 / 100)"
  by (simp add: Vth_def junction_TK_default)

lemma Jdb_default_pos: "0 < Jdb Junction_default"
  by (rule Jdb_pos) (simp add: junction_TK_default)

text \<open>
  Claim C4. For every band gap \<open>Eg > 0\<close> and every temperature \<open>TC\<close>, \<^verbatim>\<open>Jdb\<close> is
  \<open>prefix * T^3 * (x^2 + 2 x + 2) * exp (- x)\<close>, where \<open>T = TC + 273.15\<close> is the absolute
  temperature, \<open>Vth = (k / q) * T\<close> the thermal voltage and \<open>x = Eg / Vth\<close>; the prefix
  \<open>2 pi q (k / h)^3 / c^2 / 10^4\<close> is \<open>1.0133e-8\<close> to five significant digits.
\<close>

theorem Jdb_closed_form:
  "0 < Eg j \<Longrightarrow>
     (let T = TC j + 27315 / 100; x = Eg j / (k_q * T)
      in junction_TK j = T \<and> Vth j = k_q * T \<and>
         Jdb j = DB_PREFIX * T ^ 3 * (x\<^sup>2 + 2 * x + 2) * exp (- x))
     \<and> k_q = con_k / con_e
     \<and> \<bar>DB_PREFIX - 10133 / 10 ^ 12\<bar> < 5 / 10 ^ 13"
  using DB_PREFIX_approx
  by (simp add: Jdb_def Let_def np_power_3 junction_TK_def TK_def Vth_def zero_Celsius_def
      power2_eq_square k_q_def)

theorem Jdb_closed_form_witness:
  "Vth Junction_default = k_q * (29815 / 100) \<and>
   Jdb Junction_default =
     DB_PREFIX * (29815 / 100) ^ 3
       * ((11 / 10 / (k_q * (29815 / 100)))\<^sup>2 + 2 * (11 / 10 / (k_q * (29815 / 100))) + 2)
       * exp (- (11 / 10 / (k_q * (29815 / 100))))"
proof -
  have pos: "0 < Eg Junction_default"
    by (simp add: Junction_default_def)
  have tc: "TC Junction_default + 27315 / 100 = 29815 / 100"
    and eg: "Eg Junction_default = 11 / 10"
    by (simp_all add: Junction_default_def)
  from Jdb_closed_form [OF pos] show ?thesis
    unfolding Let_def tc eg by blast
qed

subsection \<open>The saturation currents\<close>

lemma J0_Val_length: "J0 j = Val js \<Longrightarrow> length js = length (n j)"
  by (auto simp: J0_def split: if_splits)

lemma J0_default:
  "J0 Junction_default =
     Val [Jdb Junction_default * 1000 * 10 / 1000,
          np_power (Jdb Junction_default * 1000) (1 / 2) * 10 / 1000]"
  by (simp add: J0_def Junction_default_def J0scale_def np_power_def)



subsection \<open>Initialising the ratios from reference currents\<close>





subsection \<open>The emitted current\<close>

lemma Jem_right_limit:
  assumes "gamma j = 0"
  shows "(Jem j \<longlongrightarrow> 0) (at_right 0)"
proof -
  let ?f = "\<lambda>V. Jdb j * (exp (V * (1 / Vth j)) - 1)"
  have "isCont ?f 0"
    by (intro continuous_intros)
  then have "(?f \<longlongrightarrow> ?f 0) (at 0)"
    by (simp add: isCont_def)
  then have "(?f \<longlongrightarrow> 0) (at_right 0)"
    by (simp add: filterlim_at_split)
  moreover have "eventually (\<lambda>V. ?f V = Jem j V) (at_right 0)"
    using eventually_at_right_less [of "0::real"]
    by (rule eventually_mono) (simp add: Jem_def assms)
  ultimately show ?thesis
    by (rule Lim_transform_eventually)
qed

text \<open>
  Claim C9. For every voltage \<open>V \<le> 0\<close>, \<^verbatim>\<open>Jem(V)\<close> is 0; for every \<open>V > 0\<close> it is
  \<open>Jdb * (exp (V / Vth) - 1) + gamma * Jphoto\<close>, where \<open>Jphoto\<close> is
  \<open>Jext * lightarea / totalarea + JLC\<close>; and when \<open>gamma = 0\<close> the function is continuous
  at 0 from the right: its values at \<open>V > 0\<close> tend to 0, its value at 0, as \<open>V\<close> tends
  to 0 from above.
\<close>

theorem Jem_cases:
  "(V \<le> 0 \<longrightarrow> Jem j V = 0)
   \<and> (0 < V \<longrightarrow> Jem j V = Jdb j * (exp (V / Vth j) - 1) + gamma j * Jphoto j)
   \<and> Jphoto j = Jext j * lightarea j / totalarea j + JLC j
   \<and> (gamma j = 0 \<longrightarrow> (Jem j \<longlongrightarrow> 0) (at_right 0) \<and> Jem j 0 = 0
         \<and> continuous (at_right 0) (Jem j))"
  using Jem_right_limit [of j]
  by (simp add: Jem_def Jphoto_def continuous_within)

theorem Jem_cases_witness:
  "Jem Junction_default (- 1) = 0
   \<and> Jem Junction_default 1
       = Jdb Junction_default * (exp (1 / Vth Junction_default) - 1)
         + gamma Junction_default * Jphoto Junction_default
   \<and> (Jem Junction_default \<longlongrightarrow> 0) (at_right 0)
   \<and> continuous (at_right 0) (Jem Junction_default)"
proof -
  have g: "gamma Junction_default = 0"
    by (simp add: Junction_default_def)
  have "(- 1 :: real) \<le> 0" and "(0 :: real) < 1"
    by simp_all
  with Jem_cases [of "- 1" Junction_default] Jem_cases [of 1 Junction_default] g
  show ?thesis
    by blast
qed

section \<open>Diode or resistor\<close>

lemma foldl_add_sum_list: "foldl (\<lambda>jsum x. jsum + x) a xs = a + sum_list xs" for a :: real
  by (induction xs arbitrary: a) (simp_all add: add.assoc)

lemma notdiode_default: "notdiode Junction_default = Inr False"
proof -
  have "0 < Jdb Junction_default * 1000 * 10 / 1000"
    using Jdb_default_pos by simp
  moreover have "0 < np_power (Jdb Junction_default * 1000) (1 / 2) * 10 / 1000"
    using Jdb_default_pos by (simp add: np_power_pos)
  ultimately have "Jdb Junction_default * 1000 * 10 / 1000
      + np_power (Jdb Junction_default * 1000) (1 / 2) * 10 / 1000 \<noteq> 0"
    by (simp only: add_pos_pos less_imp_neq [THEN not_sym] simp_thms)
  moreover have "pn Junction_default \<noteq> 0"
    by (simp add: Junction_default_def)
  ultimately show ?thesis
    unfolding notdiode_def J0_default by simp
qed

text \<open>
  Claim C1. For every junction, \<^verbatim>\<open>notdiode()\<close> returns true if and only if \<open>pn = 0\<close> or
  \<^verbatim>\<open>J0\<close> is a vector of saturation currents whose sum is exactly zero; and whenever
  \<^verbatim>\<open>notdiode()\<close> is true, \<^verbatim>\<open>Vdiode(J)\<close> returns 0 for every current density \<open>J\<close> and
  \<^verbatim>\<open>Vmid(Vtot)\<close> returns 0 for every terminal voltage \<open>Vtot\<close>, whatever the root finder
  would do.
\<close>

theorem notdiode_iff_and_zero_voltage:
  "(notdiode j = Inr True \<longleftrightarrow> (pn j = 0 \<or> (\<exists>js. J0 j = Val js \<and> sum_list js = 0)))
   \<and> (notdiode j = Inr True \<longrightarrow>
        (\<forall>J. Vdiode brentq j J = Inr (Val 0)) \<and> (\<forall>Vtot. Vmid brentq j Vtot = Inr (Val 0)))"
proof (intro conjI impI allI)
  show "notdiode j = Inr True \<longleftrightarrow> (pn j = 0 \<or> (\<exists>js. J0 j = Val js \<and> sum_list js = 0))"
    by (auto simp: notdiode_def foldl_add_sum_list split: or_nan.splits)
next
  fix J
  assume "notdiode j = Inr True"
  then show "Vdiode brentq j J = Inr (Val 0)"
    by (simp add: Vdiode_def)
next
  fix Vtot
  assume "notdiode j = Inr True"
  then show "Vmid brentq j Vtot = Inr (Val 0)"
    by (simp add: Vmid_def)
qed

theorem notdiode_iff_and_zero_voltage_witness:
  "notdiode (Junction_default\<lparr>pn := 0\<rparr>) = Inr True
   \<and> Vdiode upper_end (Junction_default\<lparr>pn := 0\<rparr>) (4 / 100) = Inr (Val 0)
   \<and> Vmid upper_end (Junction_default\<lparr>pn := 0\<rparr>) (1 / 2) = Inr (Val 0)
   \<and> notdiode (Junction_default\<lparr>J0ratio := [0, 0]\<rparr>) = Inr True
   \<and> Vdiode upper_end (Junction_default\<lparr>J0ratio := [0, 0]\<rparr>) (4 / 100) = Inr (Val 0)
   \<and> Vmid upper_end (Junction_default\<lparr>J0ratio := [0, 0]\<rparr>) (1 / 2) = Inr (Val 0)
   \<and> notdiode Junction_default \<noteq> Inr True"
proof -
  let ?a = "Junction_default\<lparr>pn := 0\<rparr>"
  let ?b = "Junction_default\<lparr>J0ratio := [0, 0]\<rparr>"
  have a: "pn ?a = 0"
    by simp
  have b: "J0 ?b = Val [0, 0] \<and> sum_list [0, 0 :: real] = 0"
    by (simp add: J0_def Junction_default_def)
  have c: "pn Junction_default \<noteq> 0"
    by (simp add: Junction_default_def)
  have "\<And>js. J0 Junction_default = Val js \<Longrightarrow> sum_list js \<noteq> 0"
    using notdiode_default by (auto simp: notdiode_def foldl_add_sum_list split: if_splits)
  then have d: "\<not> (\<exists>js. J0 Junction_default = Val js \<and> sum_list js = 0)"
    by blast
  from notdiode_iff_and_zero_voltage [of ?a upper_end] a
  have "notdiode ?a = Inr True \<and> Vdiode upper_end ?a (4 / 100) = Inr (Val 0)
      \<and> Vmid upper_end ?a (1 / 2) = Inr (Val 0)"
    by blast
  moreover from notdiode_iff_and_zero_voltage [of ?b upper_end] b
  have "notdiode ?b = Inr True \<and> Vdiode upper_end ?b (4 / 100) = Inr (Val 0)
      \<and> Vmid upper_end ?b (1 / 2) = Inr (Val 0)"
    by blast
  moreover from notdiode_iff_and_zero_voltage [of Junction_default upper_end] c d
  have "notdiode Junction_default \<noteq> Inr True"
    by blast
  ultimately show ?thesis
    by blast
qed

text \<open>
  Claim C10. For every junction with \<open>pn \<noteq> 0\<close> whose \<^verbatim>\<open>n\<close> and \<^verbatim>\<open>J0ratio\<close> differ in length,
  \<^verbatim>\<open>J0\<close> is the scalar \<^verbatim>\<open>np.nan\<close> and not an array; \<^verbatim>\<open>notdiode()\<close>, which iterates over it,
  raises \<^verbatim>\<open>TypeError\<close>; and \<^verbatim>\<open>Vdiode\<close> and \<^verbatim>\<open>Vmid\<close>, which call \<^verbatim>\<open>notdiode()\<close> before their
  \<^verbatim>\<open>try\<close>, raise the same exception instead of returning 0 or the sentinel.
\<close>

theorem mismatch_raises_TypeError:
  "pn j \<noteq> 0 \<Longrightarrow> length (n j) \<noteq> length (J0ratio j) \<Longrightarrow>
     J0 j = NaN \<and> notdiode j = Inl TypeError
     \<and> Vdiode brentq j J = Inl TypeError \<and> Vmid brentq j Vtot = Inl TypeError"
  by (simp add: J0_def notdiode_def Vdiode_def Vmid_def)

theorem mismatch_raises_TypeError_witness:
  "J0 (Junction_default\<lparr>J0ratio := [10]\<rparr>) = NaN
   \<and> notdiode (Junction_default\<lparr>J0ratio := [10]\<rparr>) = Inl TypeError
   \<and> Vdiode no_sign_change (Junction_default\<lparr>J0ratio := [10]\<rparr>) 0 = Inl TypeError
   \<and> Vmid no_sign_change (Junction_default\<lparr>J0ratio := [10]\<rparr>) 0 = Inl TypeError"
proof -
  have "pn (Junction_default\<lparr>J0ratio := [10]\<rparr>) \<noteq> 0"
    by (simp add: Junction_default_def)
  moreover have "length (n (Junction_default\<lparr>J0ratio := [10]\<rparr>))
      \<noteq> length (J0ratio (Junction_default\<lparr>J0ratio := [10]\<rparr>))"
    by (simp add: Junction_default_def)
  ultimately show ?thesis
    by (rule mismatch_raises_TypeError)
qed

section \<open>Recombination, shunt and breakdown currents\<close>

subsection \<open>The recombination current of the diodes\<close>

lemma Jmultidiodes_step_add:
  "Jmultidiodes_step j V Jrec p = Jrec + diode_current j V p"
  by (simp add: Jmultidiodes_step_def diode_current_def diode_term_def np_exp_def
      split: prod.splits)

lemma foldl_Jmultidiodes_step:
  "foldl (Jmultidiodes_step j V) a ps = a + sum_list (map (diode_current j V) ps)"
  by (induction ps arbitrary: a) (simp_all add: Jmultidiodes_step_add)

text \<open>
  The loop of \<^verbatim>\<open>Jmultidiodes\<close> adds up the currents of exactly the diodes with a positive
  ideality factor and a finite saturation current. No diode is left out for the size
  of its exponent: the \<^verbatim>\<open>except\<close> branch is never taken, since \<^verbatim>\<open>np.exp\<close> does not raise.
\<close>

lemma Jmultidiodes_sum:
  assumes "J0 j = Val js"
  shows "Jmultidiodes j V =
    Inr (\<Sum>i | i < length js \<and> 0 < n j ! i \<and> isfinite (js ! i).
           js ! i * (exp (V / Vth j / (n j ! i)) - 1))"
proof -
  have len: "length js = length (n j)"
    using assms by (rule J0_Val_length)
  have "sum_list (map (diode_current j V) (zip (n j) js))
      = (\<Sum>i = 0..<length js. diode_current j V (n j ! i, js ! i))"
    using len by (simp add: sum_list_sum_nth)
  also have "\<dots> = (\<Sum>i\<in>{0..<length js}.
        if 0 < n j ! i \<and> isfinite (js ! i)
        then js ! i * (exp (V / Vth j / (n j ! i)) - 1) else 0)"
    by (simp add: diode_current_def)
  also have "\<dots> = (\<Sum>i\<in>{0..<length js} \<inter> {i. 0 < n j ! i \<and> isfinite (js ! i)}.
        js ! i * (exp (V / Vth j / (n j ! i)) - 1))"
    by (simp only: sum.inter_restrict finite_atLeastLessThan mem_Collect_eq)
  also have "{0..<length js} \<inter> {i. 0 < n j ! i \<and> isfinite (js ! i)}
      = {i. i < length js \<and> 0 < n j ! i \<and> isfinite (js ! i)}"
    by auto
  finally show ?thesis
    using assms by (simp add: Jmultidiodes_def foldl_Jmultidiodes_step)
qed

lemma Jmultidiodes_default:
  "Jmultidiodes Junction_default V =
     Inr (Jdb Junction_default * 1000 * 10 / 1000 * (exp (V / Vth Junction_default / 1) - 1)
          + np_power (Jdb Junction_default * 1000) (1 / 2) * 10 / 1000
              * (exp (V / Vth Junction_default / 2) - 1))"
proof -
  have fields: "n Junction_default = [1, 2]"
    by (simp add: Junction_default_def)
  show ?thesis
    unfolding Jmultidiodes_def J0_default fields
    by (simp add: Jmultidiodes_step_def diode_term_def np_exp_def isfinite_def)
qed

text \<open>
  Claim C6, where the code departs from it. The claim has every diode term whose
  evaluation overflows skipped. On the default junction at 20 V the exponent of the
  first diode (\<open>n = 1\<close>), \<open>20 / Vth\<close>, is beyond the range in which the exponential of a
  \<^verbatim>\<open>float64\<close> is finite, while that of the second (\<open>n = 2\<close>) is within it. The result of
  \<^verbatim>\<open>Jmultidiodes\<close> is the sum of both terms: the first one, which is not zero, is part of
  the sum and the result is not what is left when that term is skipped.
\<close>

theorem Jmultidiodes_overflow_not_skipped:
  "EXP_OVERFLOW < 20 / Vth Junction_default / 1
   \<and> 20 / Vth Junction_default / 2 < EXP_OVERFLOW
   \<and> (\<exists>J0_1 J0_2.
        J0 Junction_default = Val [J0_1, J0_2] \<and> 0 < J0_1
        \<and> Jmultidiodes Junction_default 20
            = Inr (J0_1 * (exp (20 / Vth Junction_default / 1) - 1)
                   + J0_2 * (exp (20 / Vth Junction_default / 2) - 1))
        \<and> Jmultidiodes Junction_default 20
            \<noteq> Inr (J0_2 * (exp (20 / Vth Junction_default / 2) - 1)))"
proof (intro conjI exI)
  show "EXP_OVERFLOW < 20 / Vth Junction_default / 1"
    by (simp add: Vth_default k_q_def con_k_def con_e_def EXP_OVERFLOW_def)
  show "20 / Vth Junction_default / 2 < EXP_OVERFLOW"
    by (simp add: Vth_default k_q_def con_k_def con_e_def EXP_OVERFLOW_def)
  let ?J1 = "Jdb Junction_default * 1000 * 10 / 1000"
  let ?J2 = "np_power (Jdb Junction_default * 1000) (1 / 2) * 10 / 1000"
  show "J0 Junction_default = Val [?J1, ?J2]"
    by (rule J0_default)
  show pos: "0 < ?J1"
    using Jdb_default_pos by simp
  show "Jmultidiodes Junction_default 20
      = Inr (?J1 * (exp (20 / Vth Junction_default / 1) - 1)
             + ?J2 * (exp (20 / Vth Junction_default / 2) - 1))"
    by (rule Jmultidiodes_default)
  have "0 < Vth Junction_default"
    by (simp add: Vth_default k_q_def con_k_def con_e_def)
  then have "0 < exp (20 / Vth Junction_default / 1) - 1"
    by simp
  with pos have "0 < ?J1 * (exp (20 / Vth Junction_default / 1) - 1)"
    by (rule mult_pos_pos)
  then have "?J1 * (exp (20 / Vth Junction_default / 1) - 1)
      + ?J2 * (exp (20 / Vth Junction_default / 2) - 1)
      \<noteq> ?J2 * (exp (20 / Vth Junction_default / 2) - 1)"
    by linarith
  then show "Jmultidiodes Junction_default 20
      \<noteq> Inr (?J2 * (exp (20 / Vth Junction_default / 2) - 1))"
    unfolding Jmultidiodes_default by (simp only: sum.inject simp_thms)
qed

subsection \<open>Shunt and reverse breakdown\<close>



section \<open>The solvers\<close>

text \<open>
  Claim C2. For every junction that is a diode (\<^verbatim>\<open>notdiode()\<close> false) and every current
  density \<open>J\<close>, \<^verbatim>\<open>Vdiode(J)\<close> hands the root finder the residual \<open>v \<mapsto> Jparallel(v, Jphoto + J)\<close>,
  the bracket from \<open>-10\<close> to \<open>3\<close>, the absolute tolerance \<open>1e-4\<close>, the relative tolerance
  \<open>1e-15\<close> and the iteration cap 1000. It returns the root that the root finder returns;
  whenever the root finder raises (no change of sign over the bracket, no convergence,
  an exception of the residual) it returns the sentinel \<^verbatim>\<open>np.nan\<close>; and it raises nothing
  itself.
\<close>

theorem Vdiode_root_search:
  "notdiode j = Inr False \<Longrightarrow>
     Vdiode brentq j J =
       (case brentq (\<lambda>v. Jparallel j v (Jphoto j + J)) (- 10) 3 (1 / 10 ^ 4) (1 / 10 ^ 15) 1000 of
          Inl e \<Rightarrow> Inr NaN
        | Inr v \<Rightarrow> Inr (Val v))
     \<and> (\<forall>e. brentq (\<lambda>v. Jparallel j v (Jphoto j + J)) (- 10) 3 (1 / 10 ^ 4) (1 / 10 ^ 15) 1000
               = Inl e \<longrightarrow> Vdiode brentq j J = Inr NaN)
     \<and> (\<forall>e. Vdiode brentq j J \<noteq> Inl e)"
  by (simp add: Vdiode_def Let_def VLIM_REVERSE_def VLIM_FORWARD_def VTOL_def EPSREL_def
      MAXITER_def split: sum.splits)

theorem Vdiode_root_search_witness:
  "Vdiode no_sign_change Junction_default 0 = Inr NaN
   \<and> Vdiode upper_end Junction_default 0 = Inr (Val 3)"
proof -
  from Vdiode_root_search [OF notdiode_default, of no_sign_change 0]
  have "Vdiode no_sign_change Junction_default 0 = Inr NaN"
    by (simp add: no_sign_change_def)
  moreover from Vdiode_root_search [OF notdiode_default, of upper_end 0]
  have "Vdiode upper_end Junction_default 0 = Inr (Val 3)"
    by (simp add: upper_end_def)
  ultimately show ?thesis
    by blast
qed

subsection \<open>The series residual and its solver\<close>























end
